theory Spec2Isabelle
  imports Main
begin

section \<open>zerolog-gorm: the GORM logger over zerolog (logger.go)\<close>

text \<open>
  The package is one Go file. Its \<^verbatim>\<open>Logger\<close> holds an \<^verbatim>\<open>options\<close> struct that
  \<^verbatim>\<open>NewLogger\<close> builds from defaults and a list of option functions, and implements
  \<^verbatim>\<open>Trace\<close> (the per-query decision procedure) and \<^verbatim>\<open>ParamsFilter\<close>.

  Three collaborators are outside the package and are modelled at their interface:
  \<^item> the clock (\<^verbatim>\<open>time.Since\<close>): an oracle giving the reading of each successive call;
  \<^item> the result provider \<^verbatim>\<open>f\<close>: a thunk whose invocations are recorded;
  \<^item> the zerolog event: the level it was started at and the builder calls made on it,
    recorded when \<^verbatim>\<open>Send\<close> is called. Whether the sink then writes a line (its own
    level filter, sampling, hooks) is the sink's business and not part of this theory.
\<close>

subsection \<open>Errors and \<^verbatim>\<open>errors.Is\<close>\<close>

text \<open>
  Go error values, as far as \<^verbatim>\<open>errors.Is\<close> looks at them: the sentinel
  \<^verbatim>\<open>gorm.ErrRecordNotFound\<close>, any other leaf error (\<^verbatim>\<open>errors.New\<close>), an error wrapping
  one other (\<^verbatim>\<open>fmt.Errorf\<close> with \<^verbatim>\<open>%w\<close>), and an error wrapping several
  (\<^verbatim>\<open>errors.Join\<close>). A nil error is \<open>None\<close> of \<open>error option\<close>. Equality of two
  values stands for Go's \<^verbatim>\<open>==\<close> on the error values; \<^verbatim>\<open>Trace\<close> only ever compares
  with the sentinel, which no other value equals. Error types that bring their own
  \<^verbatim>\<open>Is\<close> method are not among the forms.
\<close>

datatype error =
    ErrRecordNotFound
  | ErrorNew string
  | Errorf string error
  | Join "error list"

text \<open>
  \<^verbatim>\<open>errors.Is(err, target)\<close> of the standard library: true when \<^verbatim>\<open>err\<close> equals the
  target, or when some error reached from it by \<^verbatim>\<open>Unwrap\<close> does (depth first).
\<close>

fun errors_Is :: "error \<Rightarrow> error \<Rightarrow> bool" where
  "errors_Is ErrRecordNotFound target = (target = ErrRecordNotFound)"
| "errors_Is (ErrorNew s) target = (target = ErrorNew s)"
| "errors_Is (Errorf s e) target = (target = Errorf s e \<or> errors_Is e target)"
| "errors_Is (Join es) target = (target = Join es \<or> list_ex (\<lambda>e. errors_Is e target) es)"

subsection \<open>Time\<close>

text \<open>
  A \<^verbatim>\<open>time.Time\<close> is an instant in nanoseconds, a \<^verbatim>\<open>time.Duration\<close> a signed 64-bit
  count of nanoseconds. \<^verbatim>\<open>Time.Sub\<close> saturates at the ends of the int64 range, and
  \<^verbatim>\<open>Duration.Milliseconds\<close> is Go's integer division by \<open>10\<^sup>6\<close>, which truncates
  towards zero.
\<close>

type_synonym Time = int
type_synonym Duration = int

definition Millisecond :: Duration where
  "Millisecond = 1000000"

definition maxDuration :: Duration where
  "maxDuration = 2 ^ 63 - 1"

definition minDuration :: Duration where
  "minDuration = - (2 ^ 63)"

definition time_Sub :: "Time \<Rightarrow> Time \<Rightarrow> Duration" where
  "time_Sub t u =
     (if t - u < minDuration then minDuration
      else if maxDuration < t - u then maxDuration
      else t - u)"

definition Milliseconds :: "Duration \<Rightarrow> int" where
  "Milliseconds d = (if d < 0 then - ((- d) div 1000000) else d div 1000000)"

subsection \<open>zerolog levels and events\<close>

datatype Level =
    TraceLevel
  | DebugLevel
  | InfoLevel
  | WarnLevel
  | ErrorLevel
  | FatalLevel
  | PanicLevel
  | NoLevel
  | Disabled

text \<open>The builder calls \<^verbatim>\<open>Trace\<close> makes on a \<^verbatim>\<open>*zerolog.Event\<close>, in the order made.\<close>

datatype attr =
    ErrA error
  | CallerSkipFrameA int
  | Int64A string int
  | StrA string string

record event =
  level :: Level
  attrs :: "attr list"

definition WithLevel :: "Level \<Rightarrow> event" where
  "WithLevel lv = \<lparr>level = lv, attrs = []\<rparr>"

definition Event_Err :: "error \<Rightarrow> event \<Rightarrow> event" where
  "Event_Err e ev = ev\<lparr>attrs := attrs ev @ [ErrA e]\<rparr>"

definition Event_CallerSkipFrame :: "int \<Rightarrow> event \<Rightarrow> event" where
  "Event_CallerSkipFrame n ev = ev\<lparr>attrs := attrs ev @ [CallerSkipFrameA n]\<rparr>"

definition Event_Int64 :: "string \<Rightarrow> int \<Rightarrow> event \<Rightarrow> event" where
  "Event_Int64 k v ev = ev\<lparr>attrs := attrs ev @ [Int64A k v]\<rparr>"

definition Event_Str :: "string \<Rightarrow> string \<Rightarrow> event \<Rightarrow> event" where
  "Event_Str k v ev = ev\<lparr>attrs := attrs ev @ [StrA k v]\<rparr>"


subsection \<open>The world outside the logger\<close>

text \<open>
  A context stands for the logger bound to it (\<^verbatim>\<open>zerolog.Ctx(ctx)\<close>). The observable
  effects of a call are, in order, the invocations of the result provider and the
  events sent. \<open>clock w k\<close> is what the \<open>k\<close>-th reading of the clock returns, and
  \<open>reads w\<close> counts the readings made so far.
\<close>

type_synonym Context = nat

datatype effect =
    Called
  | Sent Context event

record world =
  clock :: "nat \<Rightarrow> Time"
  reads :: nat
  effects :: "effect list"

definition time_Now :: "world \<Rightarrow> Time \<times> world" where
  "time_Now w = (clock w (reads w), w\<lparr>reads := Suc (reads w)\<rparr>)"

definition time_Since :: "Time \<Rightarrow> world \<Rightarrow> Duration \<times> world" where
  "time_Since t w = (let (n, w') = time_Now w in (time_Sub n t, w'))"

definition call :: "(unit \<Rightarrow> string \<times> int) \<Rightarrow> world \<Rightarrow> (string \<times> int) \<times> world" where
  "call f w = (f (), w\<lparr>effects := effects w @ [Called]\<rparr>)"

definition Event_Send :: "Context \<Rightarrow> event \<Rightarrow> world \<Rightarrow> world" where
  "Event_Send ctx ev w = w\<lparr>effects := effects w @ [Sent ctx ev]\<rparr>"

subsection \<open>Options and \<^verbatim>\<open>NewLogger\<close>\<close>

record options =
  logParams :: bool
  skipFrames :: int
  defaultLogLevel :: Level
  fieldName :: string
  ignoreNotFoundErr :: bool
  slowThreshold :: Duration
  logAll :: bool

record Logger =
  opt :: options

type_synonym OptionFn = "options \<Rightarrow> options"

definition WithLogAll :: OptionFn where
  "WithLogAll = (\<lambda>cfg. cfg\<lparr>logAll := True\<rparr>)"

definition WithIgnoreNotFoundError :: OptionFn where
  "WithIgnoreNotFoundError = (\<lambda>cfg. cfg\<lparr>ignoreNotFoundErr := True\<rparr>)"

definition WithLogParams :: OptionFn where
  "WithLogParams = (\<lambda>cfg. cfg\<lparr>logParams := True\<rparr>)"

definition WithSkipFrames :: "int \<Rightarrow> OptionFn" where
  "WithSkipFrames skip = (\<lambda>cfg. cfg\<lparr>skipFrames := skip\<rparr>)"

definition WithSqlFieldName :: "string \<Rightarrow> OptionFn" where
  "WithSqlFieldName name = (\<lambda>cfg. cfg\<lparr>fieldName := name\<rparr>)"

definition WithDefaultLogLevel :: "Level \<Rightarrow> OptionFn" where
  "WithDefaultLogLevel lv = (\<lambda>cfg. cfg\<lparr>defaultLogLevel := lv\<rparr>)"

definition WithSlowThreshold :: "Duration \<Rightarrow> OptionFn" where
  "WithSlowThreshold threshold = (\<lambda>cfg. cfg\<lparr>slowThreshold := threshold\<rparr>)"

text \<open>
  The struct literal of \<^verbatim>\<open>NewLogger\<close> names three fields; the others take Go's zero
  values.
\<close>

definition defaults :: options where
  "defaults =
     \<lparr>logParams = False, skipFrames = 0, defaultLogLevel = DebugLevel, fieldName = ''sql'',
      ignoreNotFoundErr = False, slowThreshold = 500 * Millisecond, logAll = False\<rparr>"

fun apply_opts :: "OptionFn list \<Rightarrow> options \<Rightarrow> options" where
  "apply_opts [] cfg = cfg"
| "apply_opts (fn # opts) cfg = apply_opts opts (fn cfg)"

definition NewLogger :: "OptionFn list \<Rightarrow> Logger" where
  "NewLogger opts = \<lparr>opt = apply_opts opts defaults\<rparr>"

subsection \<open>\<^verbatim>\<open>Trace\<close> and \<^verbatim>\<open>ParamsFilter\<close>\<close>

text \<open>
  \<^verbatim>\<open>Trace\<close>, statement by statement. \<^verbatim>\<open>&&\<close> is short-circuit, so the clock is read for the
  comparison only when the threshold is positive; each \<^verbatim>\<open>return\<close> of the source is a
  branch that yields the world as it is at that point.
\<close>

definition Trace ::
  "Logger \<Rightarrow> Context \<Rightarrow> Time \<Rightarrow> (unit \<Rightarrow> string \<times> int) \<Rightarrow> error option \<Rightarrow> world \<Rightarrow> world" where
  "Trace l ctx begin f err w0 =
     (let logLevel0 = defaultLogLevel (opt l);
          shouldLog0 = logAll (opt l);
          (slow, w1) =
             (if 0 < slowThreshold (opt l)
              then (let (d, w') = time_Since begin w0 in (slowThreshold (opt l) < d, w'))
              else (False, w0));
          logLevel = (if slow then WarnLevel else logLevel0);
          shouldLog1 = (if slow then True else shouldLog0);
          event0 = WithLevel logLevel
      in case (case err of
                 None \<Rightarrow> Some (event0, shouldLog1)
               | Some e \<Rightarrow>
                   if ignoreNotFoundErr (opt l) \<and> errors_Is e ErrRecordNotFound then None
                   else Some (Event_Err e (WithLevel ErrorLevel), True)) of
           None \<Rightarrow> w1
         | Some (event1, shouldLog) \<Rightarrow>
             if \<not> shouldLog then w1
             else
               (let event2 = (if 0 < skipFrames (opt l)
                              then Event_CallerSkipFrame (skipFrames (opt l)) event1
                              else event1);
                    (d2, w2) = time_Since begin w1;
                    event3 = Event_Int64 ''elapsed_ms'' (Milliseconds d2) event2;
                    ((sql, rows), w3) = call f w2;
                    event4 = (if sql \<noteq> '''' then Event_Str (fieldName (opt l)) sql event3
                              else event3);
                    event5 = (if -1 < rows then Event_Int64 ''rows_affected'' rows event4
                              else event4)
                in Event_Send ctx event5 w3))"

text \<open>
  \<^verbatim>\<open>ParamsFilter\<close>. A Go slice may be nil: \<open>None\<close> is the nil slice. The function is
  given the world and hands it back, as the source touches nothing.
\<close>

definition ParamsFilter ::
  "Logger \<Rightarrow> Context \<Rightarrow> string \<Rightarrow> 'a list option \<Rightarrow> world \<Rightarrow> (string \<times> 'a list option) \<times> world" where
  "ParamsFilter l ctx sql params w =
     (if \<not> logParams (opt l) then ((sql, None), w) else ((sql, params), w))"

subsection \<open>The option constructors, by the field they write\<close>

text \<open>
  The source has seven option constructors, each a setter of one field of
  \<^verbatim>\<open>options\<close>. To say which field an option writes, the calls are named by a datatype:
  \<open>option_fn\<close> gives the option function the call returns, \<open>target\<close> the field its body
  assigns.
\<close>

datatype field =
    F_logParams
  | F_skipFrames
  | F_defaultLogLevel
  | F_fieldName
  | F_ignoreNotFoundErr
  | F_slowThreshold
  | F_logAll

datatype option_call =
    LogAll
  | IgnoreNotFoundError
  | LogParams
  | SkipFrames int
  | SqlFieldName string
  | DefaultLogLevel Level
  | SlowThreshold Duration

fun option_fn :: "option_call \<Rightarrow> OptionFn" where
  "option_fn LogAll = WithLogAll"
| "option_fn IgnoreNotFoundError = WithIgnoreNotFoundError"
| "option_fn LogParams = WithLogParams"
| "option_fn (SkipFrames skip) = WithSkipFrames skip"
| "option_fn (SqlFieldName name) = WithSqlFieldName name"
| "option_fn (DefaultLogLevel lv) = WithDefaultLogLevel lv"
| "option_fn (SlowThreshold threshold) = WithSlowThreshold threshold"

fun target :: "option_call \<Rightarrow> field" where
  "target LogAll = F_logAll"
| "target IgnoreNotFoundError = F_ignoreNotFoundErr"
| "target LogParams = F_logParams"
| "target (SkipFrames skip) = F_skipFrames"
| "target (SqlFieldName name) = F_fieldName"
| "target (DefaultLogLevel lv) = F_defaultLogLevel"
| "target (SlowThreshold threshold) = F_slowThreshold"

text \<open>
  Reading a field by its name, the value the body of an option assigns, and the last
  call of an argument list that writes a given field.
\<close>

datatype setting =
    BoolV bool
  | IntV int
  | LevelV Level
  | StringV string

fun field_value :: "field \<Rightarrow> options \<Rightarrow> setting" where
  "field_value F_logParams cfg = BoolV (logParams cfg)"
| "field_value F_skipFrames cfg = IntV (skipFrames cfg)"
| "field_value F_defaultLogLevel cfg = LevelV (defaultLogLevel cfg)"
| "field_value F_fieldName cfg = StringV (fieldName cfg)"
| "field_value F_ignoreNotFoundErr cfg = BoolV (ignoreNotFoundErr cfg)"
| "field_value F_slowThreshold cfg = IntV (slowThreshold cfg)"
| "field_value F_logAll cfg = BoolV (logAll cfg)"

fun assigned :: "option_call \<Rightarrow> setting" where
  "assigned LogAll = BoolV True"
| "assigned IgnoreNotFoundError = BoolV True"
| "assigned LogParams = BoolV True"
| "assigned (SkipFrames skip) = IntV skip"
| "assigned (SqlFieldName name) = StringV name"
| "assigned (DefaultLogLevel lv) = LevelV lv"
| "assigned (SlowThreshold threshold) = IntV threshold"

fun last_write :: "field \<Rightarrow> option_call list \<Rightarrow> option_call option" where
  "last_write fld [] = None"
| "last_write fld (c # cs) =
     (case last_write fld cs of
        Some c' \<Rightarrow> Some c'
      | None \<Rightarrow> if target c = fld then Some c else None)"

subsection \<open>Example inputs\<close>

text \<open>
  The provider of the package's tests, and a world with nothing sent yet whose clock
  reads \<open>t1\<close> at the first call and \<open>t2\<close> at every later one.
\<close>

definition select_1 :: "unit \<Rightarrow> string \<times> int" where
  "select_1 = (\<lambda>_. (''SELECT 1'', 1))"

definition fresh_world :: "Time \<Rightarrow> Time \<Rightarrow> world" where
  "fresh_world t1 t2 = \<lparr>clock = (\<lambda>k. if k = 0 then t1 else t2), reads = 0, effects = []\<rparr>"

section \<open>Auxiliary facts\<close>

lemmas world_defs = time_Since_def time_Now_def call_def Event_Send_def

lemmas event_defs =
  WithLevel_def Event_Err_def Event_CallerSkipFrame_def Event_Int64_def Event_Str_def

lemmas option_defs =
  WithLogAll_def WithIgnoreNotFoundError_def WithLogParams_def WithSkipFrames_def
  WithSqlFieldName_def WithDefaultLogLevel_def WithSlowThreshold_def

lemmas config_defs = NewLogger_def defaults_def Millisecond_def option_defs

lemmas example_defs =
  select_1_def fresh_world_def time_Sub_def minDuration_def maxDuration_def Milliseconds_def

lemma time_Sub_mono: "t \<le> t' \<Longrightarrow> time_Sub t u \<le> time_Sub t' u"
  by (simp add: time_Sub_def minDuration_def maxDuration_def)

lemma Milliseconds_mono:
  assumes le: "d \<le> d'"
  shows "Milliseconds d \<le> Milliseconds d'"
proof -
  consider "d' < 0" | "d < 0" "0 \<le> d'" | "0 \<le> d" by linarith
  then show ?thesis
  proof cases
    case 1
    with le have "(- d') div 1000000 \<le> (- d) div 1000000"
      by (intro zdiv_mono1) simp_all
    with 1 le show ?thesis by (simp add: Milliseconds_def)
  next
    case 2
    then have "0 \<le> (- d) div 1000000" and "0 \<le> d' div 1000000"
      by (simp_all add: pos_imp_zdiv_nonneg_iff)
    with 2 show ?thesis by (simp add: Milliseconds_def)
  next
    case 3
    with le have "d div 1000000 \<le> d' div 1000000"
      by (intro zdiv_mono1) simp_all
    with 3 le show ?thesis by (simp add: Milliseconds_def)
  qed
qed

lemma apply_opts_append: "apply_opts (xs @ ys) cfg = apply_opts ys (apply_opts xs cfg)"
  by (induction xs arbitrary: cfg) simp_all

lemma option_fn_commute:
  "target a \<noteq> target b \<Longrightarrow> option_fn b (option_fn a cfg) = option_fn a (option_fn b cfg)"
  by (cases a; cases b) (simp_all add: option_defs)

lemma option_fn_overwrite:
  "target a = target b \<Longrightarrow> option_fn b (option_fn a cfg) = option_fn b cfg"
  by (cases a; cases b) (simp_all add: option_defs)

lemma field_value_option_fn:
  "field_value fld (option_fn c cfg) = (if target c = fld then assigned c else field_value fld cfg)"
  by (cases c; cases fld) (simp_all add: option_defs)

lemma field_value_apply_opts:
  "field_value fld (apply_opts (map option_fn cs) cfg) =
     (case last_write fld cs of None \<Rightarrow> field_value fld cfg | Some c \<Rightarrow> assigned c)"
proof (induction cs arbitrary: cfg)
  case Nil
  show ?case by simp
next
  case (Cons c cs)
  show ?case
    by (simp add: Cons.IH field_value_option_fn split: option.splits)
qed

section \<open>Properties of \<^verbatim>\<open>Trace\<close>\<close>

text \<open>
  C1. With \<open>logAll = False\<close> and \<open>slowThreshold = 0\<close>, a \<^verbatim>\<open>Trace\<close> call with a nil error
  emits nothing: the world is returned as it was (nothing sent, the provider not
  invoked, the clock not even read).
\<close>

theorem Trace_quiet_on_fast_success:
  assumes "\<not> logAll (opt l)" and "slowThreshold (opt l) = 0"
  shows "Trace l ctx begin f None w = w"
  using assms by (simp add: Trace_def)

theorem Trace_quiet_on_fast_success_witness:
  "\<not> logAll (opt (NewLogger [WithSlowThreshold 0]))
   \<and> slowThreshold (opt (NewLogger [WithSlowThreshold 0])) = 0
   \<and> Trace (NewLogger [WithSlowThreshold 0]) 1 0 select_1 None (fresh_world 2000000 2000000)
       = fresh_world 2000000 2000000"
  using Trace_quiet_on_fast_success
    [of "NewLogger [WithSlowThreshold 0]" 1 0 select_1 "fresh_world 2000000 2000000"]
  by (simp add: config_defs)

text \<open>
  C2, as stated, fails: an error that is not the sentinel but wraps it is matched by
  \<^verbatim>\<open>errors.Is\<close>, and with \<open>ignoreNotFoundErr\<close> set the call returns before anything is
  sent. Here \<^verbatim>\<open>fmt.Errorf("find user: %w", gorm.ErrRecordNotFound)\<close> is traced by
  \<^verbatim>\<open>NewLogger(WithIgnoreNotFoundError())\<close>.
\<close>

theorem Trace_wrapped_not_found_not_logged:
  "Errorf ''find user'' ErrRecordNotFound \<noteq> ErrRecordNotFound
   \<and> effects (Trace (NewLogger [WithIgnoreNotFoundError]) 1 0 select_1
        (Some (Errorf ''find user'' ErrRecordNotFound)) (fresh_world 2000000 2000000)) = []"
  by (simp add: Trace_def config_defs world_defs example_defs)

text \<open>
  C2, amended. For every \<^verbatim>\<open>Trace\<close> call with a non-nil error, except where
  \<open>ignoreNotFoundErr\<close> is set and \<^verbatim>\<open>errors.Is\<close> matches the error with the
  record-not-found sentinel (it is the sentinel or wraps it), the provider is invoked
  and one event is sent, at Error level and carrying the error, whatever \<open>logAll\<close> and
  \<open>slowThreshold\<close> are; so also when the query is slow, where the Error event replaces
  the Warn one. With \<open>ignoreNotFoundErr\<close> unset this covers every non-nil error.
\<close>

theorem Trace_error_sent_at_ErrorLevel:
  assumes "\<not> (ignoreNotFoundErr (opt l) \<and> errors_Is e ErrRecordNotFound)"
  shows "\<exists>ev. effects (Trace l ctx begin f (Some e) w) = effects w @ [Called, Sent ctx ev]
           \<and> level ev = ErrorLevel \<and> ErrA e \<in> set (attrs ev)"
  using assms by (auto simp add: Trace_def world_defs event_defs Let_def split: prod.splits)

theorem Trace_error_sent_at_ErrorLevel_witness:
  "\<not> (ignoreNotFoundErr (opt (NewLogger [WithIgnoreNotFoundError, WithSkipFrames 1,
            WithSlowThreshold 1, WithSqlFieldName ''test'']))
        \<and> errors_Is (ErrorNew ''some error'') ErrRecordNotFound)
   \<and> 0 < slowThreshold (opt (NewLogger [WithIgnoreNotFoundError, WithSkipFrames 1,
            WithSlowThreshold 1, WithSqlFieldName ''test'']))
   \<and> slowThreshold (opt (NewLogger [WithIgnoreNotFoundError, WithSkipFrames 1,
            WithSlowThreshold 1, WithSqlFieldName ''test'']))
        < time_Sub (clock (fresh_world 2000000 2000000) 0) 0
   \<and> (\<exists>ev. effects (Trace (NewLogger [WithIgnoreNotFoundError, WithSkipFrames 1,
                 WithSlowThreshold 1, WithSqlFieldName ''test''])
               1 0 select_1 (Some (ErrorNew ''some error'')) (fresh_world 2000000 2000000))
             = [Called, Sent 1 ev]
           \<and> level ev = ErrorLevel \<and> ErrA (ErrorNew ''some error'') \<in> set (attrs ev))
   \<and> \<not> (ignoreNotFoundErr (opt (NewLogger []))
        \<and> errors_Is (Errorf ''find user'' ErrRecordNotFound) ErrRecordNotFound)
   \<and> errors_Is (Errorf ''find user'' ErrRecordNotFound) ErrRecordNotFound
   \<and> (\<exists>ev. effects (Trace (NewLogger []) 1 0 select_1
               (Some (Errorf ''find user'' ErrRecordNotFound)) (fresh_world 2000000 2000000))
             = [Called, Sent 1 ev]
           \<and> level ev = ErrorLevel
           \<and> ErrA (Errorf ''find user'' ErrRecordNotFound) \<in> set (attrs ev))"
  using Trace_error_sent_at_ErrorLevel
      [of "NewLogger [WithIgnoreNotFoundError, WithSkipFrames 1,
             WithSlowThreshold 1, WithSqlFieldName ''test'']"
          "ErrorNew ''some error''" 1 0 select_1 "fresh_world 2000000 2000000"]
    Trace_error_sent_at_ErrorLevel
      [of "NewLogger []" "Errorf ''find user'' ErrRecordNotFound"
          1 0 select_1 "fresh_world 2000000 2000000"]
  by (simp add: config_defs example_defs)

text \<open>
  C3. With \<open>ignoreNotFoundErr\<close> set, a \<^verbatim>\<open>Trace\<close> call whose error is the record-not-found
  sentinel sends no event at any level and does not invoke the provider, whatever
  \<open>logAll\<close>, \<open>slowThreshold\<close> and the clock are.
\<close>

theorem Trace_ignored_not_found_sends_nothing:
  assumes "ignoreNotFoundErr (opt l)"
  shows "effects (Trace l ctx begin f (Some ErrRecordNotFound) w) = effects w"
  using assms by (simp add: Trace_def world_defs Let_def split: prod.splits)

theorem Trace_ignored_not_found_sends_nothing_witness:
  "ignoreNotFoundErr (opt (NewLogger [WithIgnoreNotFoundError, WithLogAll, WithSlowThreshold 1]))
   \<and> effects (Trace (NewLogger [WithIgnoreNotFoundError, WithLogAll, WithSlowThreshold 1])
        1 0 select_1 (Some ErrRecordNotFound) (fresh_world 2000000 2000000))
       = effects (fresh_world 2000000 2000000)"
  using Trace_ignored_not_found_sends_nothing
    [of "NewLogger [WithIgnoreNotFoundError, WithLogAll, WithSlowThreshold 1]"
        1 0 select_1 "fresh_world 2000000 2000000"]
  by (simp add: config_defs)

text \<open>
  C4, as stated, fails: the check is \<^verbatim>\<open>errors.Is\<close>, not identity. An \<^verbatim>\<open>errors.Join\<close> of
  two errors, the second wrapping the sentinel, is not the sentinel, and with
  \<open>ignoreNotFoundErr\<close> set (and \<open>logAll\<close> too) nothing is sent for it.
\<close>

theorem Trace_ignore_check_unwraps:
  "Join [ErrorNew ''rollback failed'', Errorf ''load account'' ErrRecordNotFound]
     \<noteq> ErrRecordNotFound
   \<and> ignoreNotFoundErr (opt (NewLogger [WithIgnoreNotFoundError, WithLogAll]))
   \<and> effects (Trace (NewLogger [WithIgnoreNotFoundError, WithLogAll]) 1 0 select_1
        (Some (Join [ErrorNew ''rollback failed'', Errorf ''load account'' ErrRecordNotFound]))
        (fresh_world 2000000 2000000)) = []"
  by (simp add: Trace_def config_defs world_defs example_defs)

text \<open>
  C4, amended. The ignore-not-found check of \<^verbatim>\<open>Trace\<close> compares the error with the
  sentinel by \<^verbatim>\<open>errors.Is\<close>: with \<open>ignoreNotFoundErr\<close> set, a non-nil error is suppressed
  (nothing sent, provider not invoked) exactly when it is the sentinel or reaches it by
  unwrapping.
\<close>

theorem Trace_ignore_check_is_errors_Is:
  assumes "ignoreNotFoundErr (opt l)"
  shows "(effects (Trace l ctx begin f (Some e) w) = effects w) = errors_Is e ErrRecordNotFound"
  using assms by (simp add: Trace_def world_defs Let_def split: prod.splits)

theorem Trace_ignore_check_is_errors_Is_witness:
  "ignoreNotFoundErr (opt (NewLogger [WithIgnoreNotFoundError]))
   \<and> errors_Is (Errorf ''first'' (Errorf ''find user'' ErrRecordNotFound)) ErrRecordNotFound
   \<and> effects (Trace (NewLogger [WithIgnoreNotFoundError]) 1 0 select_1
        (Some (Errorf ''first'' (Errorf ''find user'' ErrRecordNotFound)))
        (fresh_world 2000000 2000000))
       = effects (fresh_world 2000000 2000000)"
  using Trace_ignore_check_is_errors_Is
    [of "NewLogger [WithIgnoreNotFoundError]" 1 0 select_1
        "Errorf ''first'' (Errorf ''find user'' ErrRecordNotFound)" "fresh_world 2000000 2000000"]
  by (simp add: config_defs)

text \<open>
  C5. For every \<^verbatim>\<open>Trace\<close> call with a nil error, a positive \<open>slowThreshold\<close> and an
  elapsed time (the one the comparison measures) above it, the provider is invoked and
  one event is sent, at Warn level, recording the elapsed milliseconds under
  \<^verbatim>\<open>elapsed_ms\<close> (as measured when the field is written) and, when the SQL text the
  provider returns is not empty, that text under the configured field name.
\<close>

theorem Trace_slow_sent_at_WarnLevel:
  assumes "0 < slowThreshold (opt l)"
    and "slowThreshold (opt l) < time_Sub (clock w (reads w)) begin"
  shows "\<exists>ev. effects (Trace l ctx begin f None w) = effects w @ [Called, Sent ctx ev]
           \<and> level ev = WarnLevel
           \<and> Int64A ''elapsed_ms'' (Milliseconds (time_Sub (clock w (Suc (reads w))) begin))
                \<in> set (attrs ev)
           \<and> (fst (f ()) \<noteq> '''' \<longrightarrow>
                StrA (fieldName (opt l)) (fst (f ())) \<in> set (attrs ev))"
  using assms by (simp add: Trace_def world_defs event_defs Let_def split: prod.splits)

theorem Trace_slow_sent_at_WarnLevel_witness:
  "0 < slowThreshold (opt (NewLogger [WithSlowThreshold 1]))
   \<and> slowThreshold (opt (NewLogger [WithSlowThreshold 1]))
        < time_Sub (clock (fresh_world 2000000 2000000) (reads (fresh_world 2000000 2000000))) 0
   \<and> fst (select_1 ()) \<noteq> ''''
   \<and> (\<exists>ev. effects (Trace (NewLogger [WithSlowThreshold 1]) 1 0 select_1 None
                 (fresh_world 2000000 2000000)) = [Called, Sent 1 ev]
           \<and> level ev = WarnLevel
           \<and> Int64A ''elapsed_ms'' 2 \<in> set (attrs ev)
           \<and> StrA ''sql'' ''SELECT 1'' \<in> set (attrs ev))"
  using Trace_slow_sent_at_WarnLevel
    [of "NewLogger [WithSlowThreshold 1]" "fresh_world 2000000 2000000" 0 1 select_1]
  by (simp add: config_defs example_defs)




text \<open>
  C8, as stated, fails: \<^verbatim>\<open>time.Since(begin)\<close> is called twice, once in the comparison and
  once for the field. With the default threshold of 500 ms, \<open>logAll\<close>, and a clock that
  reads 400 ms at the comparison and 700 ms at the field, the clock is read twice and
  the event is sent at the default level with \<^verbatim>\<open>elapsed_ms = 700\<close>, although the
  measurement that was compared is 400 ms.
\<close>

theorem Trace_elapsed_measured_twice:
  "slowThreshold (opt (NewLogger [WithLogAll])) = 500000000
   \<and> Milliseconds (fst (time_Since 0 (fresh_world 400000000 700000000))) = 400
   \<and> reads (Trace (NewLogger [WithLogAll]) 1 0 select_1 None (fresh_world 400000000 700000000))
       = 2
   \<and> effects (Trace (NewLogger [WithLogAll]) 1 0 select_1 None
        (fresh_world 400000000 700000000)) =
       [Called, Sent 1 \<lparr>level = DebugLevel,
          attrs = [Int64A ''elapsed_ms'' 700, StrA ''sql'' ''SELECT 1'',
                   Int64A ''rows_affected'' 1]\<rparr>]"
  by (simp add: Trace_def config_defs world_defs event_defs example_defs)

text \<open>
  C8, amended. In every \<^verbatim>\<open>Trace\<close> call that sends an event, the elapsed time is
  measured as now minus \<open>begin\<close> separately for each use: when \<open>slowThreshold\<close> is
  positive the clock is read once for the comparison (which decides between Warn and
  the default level when the error is nil) and a second time for \<^verbatim>\<open>elapsed_ms\<close>;
  otherwise it is read once, for \<^verbatim>\<open>elapsed_ms\<close>. If the clock does not go back between
  the two readings, the recorded milliseconds are at least those of the compared
  measurement.
\<close>

theorem Trace_elapsed_measured_per_use:
  assumes "effects (Trace l ctx begin f err w) \<noteq> effects w"
  shows "\<exists>ev. effects (Trace l ctx begin f err w) = effects w @ [Called, Sent ctx ev]
      \<and> level ev =
          (case err of
             Some e \<Rightarrow> ErrorLevel
           | None \<Rightarrow>
               if 0 < slowThreshold (opt l)
                  \<and> slowThreshold (opt l) < time_Sub (clock w (reads w)) begin
               then WarnLevel else defaultLogLevel (opt l))
      \<and> Int64A ''elapsed_ms''
           (Milliseconds (time_Sub
              (clock w (if 0 < slowThreshold (opt l) then Suc (reads w) else reads w)) begin))
          \<in> set (attrs ev)
      \<and> reads (Trace l ctx begin f err w) =
          (if 0 < slowThreshold (opt l) then reads w + 2 else reads w + 1)
      \<and> (clock w (reads w) \<le> clock w (Suc (reads w)) \<longrightarrow>
           Milliseconds (time_Sub (clock w (reads w)) begin)
             \<le> Milliseconds (time_Sub (clock w (Suc (reads w))) begin))"
proof -
  have mono: "clock w (reads w) \<le> clock w (Suc (reads w)) \<longrightarrow>
           Milliseconds (time_Sub (clock w (reads w)) begin)
             \<le> Milliseconds (time_Sub (clock w (Suc (reads w))) begin)"
    by (simp add: Milliseconds_mono time_Sub_mono)
  show ?thesis
  proof (cases "0 < slowThreshold (opt l)")
    case True
    with assms mono show ?thesis
      by (cases err; cases "f ()")
         (simp_all add: Trace_def world_defs event_defs Let_def split: if_splits)
  next
    case False
    with assms mono show ?thesis
      by (cases err; cases "f ()")
         (simp_all add: Trace_def world_defs event_defs Let_def split: if_splits)
  qed
qed

theorem Trace_elapsed_measured_per_use_witness:
  "effects (Trace (NewLogger [WithSlowThreshold 1]) 1 0 select_1 None
      (fresh_world 2000000 5000000)) \<noteq> effects (fresh_world 2000000 5000000)
   \<and> clock (fresh_world 2000000 5000000) (reads (fresh_world 2000000 5000000))
       \<le> clock (fresh_world 2000000 5000000) (Suc (reads (fresh_world 2000000 5000000)))
   \<and> (\<exists>ev. effects (Trace (NewLogger [WithSlowThreshold 1]) 1 0 select_1 None
                 (fresh_world 2000000 5000000)) = [Called, Sent 1 ev]
           \<and> level ev = WarnLevel
           \<and> Int64A ''elapsed_ms'' 5 \<in> set (attrs ev))
   \<and> reads (Trace (NewLogger [WithSlowThreshold 1]) 1 0 select_1 None
        (fresh_world 2000000 5000000)) = 2
   \<and> Milliseconds (time_Sub 2000000 0) \<le> Milliseconds (time_Sub 5000000 0)"
proof -
  have sent: "effects (Trace (NewLogger [WithSlowThreshold 1]) 1 0 select_1 None
      (fresh_world 2000000 5000000)) \<noteq> effects (fresh_world 2000000 5000000)"
    by (simp add: Trace_def config_defs world_defs example_defs)
  from Trace_elapsed_measured_per_use [OF sent] sent show ?thesis
    by (auto simp add: config_defs example_defs)
qed

text \<open>
  C10. For every configuration whose \<open>slowThreshold\<close> is zero or negative, the slow
  branch of \<^verbatim>\<open>Trace\<close> never triggers, whatever the clock reads: with a nil error and
  \<open>logAll\<close> unset the world is returned as it was, and with \<open>logAll\<close> set the event is
  sent at the default level.
\<close>

theorem Trace_nonpositive_threshold_never_slow:
  assumes "slowThreshold (opt l) \<le> 0"
  shows "(\<not> logAll (opt l) \<longrightarrow> Trace l ctx begin f None w = w)
     \<and> (logAll (opt l) \<longrightarrow>
          (\<exists>ev. effects (Trace l ctx begin f None w) = effects w @ [Called, Sent ctx ev]
             \<and> level ev = defaultLogLevel (opt l)))"
  using assms by (simp add: Trace_def world_defs event_defs Let_def split: prod.splits)

theorem Trace_nonpositive_threshold_never_slow_witness:
  "slowThreshold (opt (NewLogger [WithSlowThreshold (- 1)])) \<le> 0
   \<and> \<not> logAll (opt (NewLogger [WithSlowThreshold (- 1)]))
   \<and> Trace (NewLogger [WithSlowThreshold (- 1)]) 1 0 select_1 None
        (fresh_world 3600000000000 3600000000000) = fresh_world 3600000000000 3600000000000
   \<and> slowThreshold (opt (NewLogger [WithSlowThreshold (- 1), WithLogAll])) \<le> 0
   \<and> logAll (opt (NewLogger [WithSlowThreshold (- 1), WithLogAll]))
   \<and> (\<exists>ev. effects (Trace (NewLogger [WithSlowThreshold (- 1), WithLogAll]) 1 0 select_1 None
                 (fresh_world 3600000000000 3600000000000)) = [Called, Sent 1 ev]
           \<and> level ev = DebugLevel)"
  using Trace_nonpositive_threshold_never_slow
      [of "NewLogger [WithSlowThreshold (- 1)]" 1 0 select_1
          "fresh_world 3600000000000 3600000000000"]
    Trace_nonpositive_threshold_never_slow
      [of "NewLogger [WithSlowThreshold (- 1), WithLogAll]" 1 0 select_1
          "fresh_world 3600000000000 3600000000000"]
  by (simp add: config_defs example_defs)

section \<open>Properties of \<^verbatim>\<open>ParamsFilter\<close> and \<^verbatim>\<open>NewLogger\<close>\<close>

text \<open>
  C6. \<^verbatim>\<open>ParamsFilter\<close> returns the SQL text it was given, with the nil slice when
  \<open>logParams\<close> is unset and with the parameters it was given when \<open>logParams\<close> is set,
  and leaves the world as it was.
\<close>

theorem ParamsFilter_redacts_or_passes:
  "ParamsFilter l ctx sql params w = ((sql, if logParams (opt l) then params else None), w)"
  by (simp add: ParamsFilter_def)

theorem ParamsFilter_redacts_or_passes_witness:
  "ParamsFilter (NewLogger []) 1 ''SELECT ?'' (Some [1::int]) (fresh_world 0 0)
     = ((''SELECT ?'', None), fresh_world 0 0)
   \<and> ParamsFilter (NewLogger [WithLogParams]) 1 ''SELECT ?'' (Some [1::int]) (fresh_world 0 0)
     = ((''SELECT ?'', Some [1]), fresh_world 0 0)"
  using ParamsFilter_redacts_or_passes
      [of "NewLogger []" 1 "''SELECT ?''" "Some [1::int]" "fresh_world 0 0"]
    ParamsFilter_redacts_or_passes
      [of "NewLogger [WithLogParams]" 1 "''SELECT ?''" "Some [1::int]" "fresh_world 0 0"]
  by (simp add: config_defs)

text \<open>
  C9. \<^verbatim>\<open>NewLogger\<close> without options gives the defaults (\<open>logParams\<close> false, \<open>skipFrames\<close> 0,
  \<open>defaultLogLevel\<close> Debug, \<open>fieldName\<close> \<^verbatim>\<open>"sql"\<close>, \<open>ignoreNotFoundErr\<close> false,
  \<open>slowThreshold\<close> 500 ms, \<open>logAll\<close> false). The options are applied in call order, each
  to the result of those before it. Each option sets the field it targets to the value
  it assigns and leaves every other field as it was. So the final value of a field is
  the one assigned by the last option of the argument list that targets it, and the
  default when none does; two adjacent options that target different fields may be
  exchanged without changing the logger; and of two adjacent options that target the
  same field only the later one counts.
\<close>

theorem NewLogger_applies_options_in_order:
  "opt (NewLogger []) =
     \<lparr>logParams = False, skipFrames = 0, defaultLogLevel = DebugLevel, fieldName = ''sql'',
      ignoreNotFoundErr = False, slowThreshold = 500000000, logAll = False\<rparr>
   \<and> opt (NewLogger (opts @ [fn])) = fn (opt (NewLogger opts))
   \<and> field_value (target c) (option_fn c cfg) = assigned c
   \<and> (fld \<noteq> target c \<longrightarrow> field_value fld (option_fn c cfg) = field_value fld cfg)
   \<and> field_value fld (opt (NewLogger (map option_fn cs))) =
       (case last_write fld cs of
          None \<Rightarrow> field_value fld (opt (NewLogger []))
        | Some c' \<Rightarrow> assigned c')
   \<and> (target a \<noteq> target b \<longrightarrow>
        NewLogger (pre @ [option_fn a, option_fn b] @ post)
          = NewLogger (pre @ [option_fn b, option_fn a] @ post))
   \<and> (target a = target b \<longrightarrow>
        NewLogger (pre @ [option_fn a, option_fn b] @ post)
          = NewLogger (pre @ [option_fn b] @ post)
        \<and> field_value (target b) (opt (NewLogger (pre @ [option_fn a, option_fn b])))
            = assigned b)"
proof (intro conjI impI)
  show "opt (NewLogger []) =
     \<lparr>logParams = False, skipFrames = 0, defaultLogLevel = DebugLevel, fieldName = ''sql'',
      ignoreNotFoundErr = False, slowThreshold = 500000000, logAll = False\<rparr>"
    by (simp add: NewLogger_def defaults_def Millisecond_def)
  show "opt (NewLogger (opts @ [fn])) = fn (opt (NewLogger opts))"
    by (simp add: NewLogger_def apply_opts_append)
  show "field_value (target c) (option_fn c cfg) = assigned c"
    by (simp add: field_value_option_fn)
  show "field_value fld (option_fn c cfg) = field_value fld cfg" if "fld \<noteq> target c"
    using that by (simp add: field_value_option_fn)
  show "field_value fld (opt (NewLogger (map option_fn cs))) =
       (case last_write fld cs of
          None \<Rightarrow> field_value fld (opt (NewLogger []))
        | Some c' \<Rightarrow> assigned c')"
    by (simp add: NewLogger_def field_value_apply_opts split: option.splits)
  show "NewLogger (pre @ [option_fn a, option_fn b] @ post)
          = NewLogger (pre @ [option_fn b, option_fn a] @ post)" if "target a \<noteq> target b"
    using that by (simp add: NewLogger_def apply_opts_append option_fn_commute)
  show "NewLogger (pre @ [option_fn a, option_fn b] @ post)
          = NewLogger (pre @ [option_fn b] @ post)" if "target a = target b"
    using that by (simp add: NewLogger_def apply_opts_append option_fn_overwrite)
  show "field_value (target b) (opt (NewLogger (pre @ [option_fn a, option_fn b])))
          = assigned b" if "target a = target b"
    by (simp add: NewLogger_def apply_opts_append field_value_option_fn)
qed

theorem NewLogger_applies_options_in_order_witness:
  "target (SkipFrames 1) \<noteq> target (SqlFieldName ''test'')
   \<and> NewLogger [WithSkipFrames 1, WithSqlFieldName ''test'']
       = NewLogger [WithSqlFieldName ''test'', WithSkipFrames 1]
   \<and> skipFrames (opt (NewLogger [WithSkipFrames 1, WithSqlFieldName ''test''])) = 1
   \<and> fieldName (opt (NewLogger [WithSkipFrames 1, WithSqlFieldName ''test''])) = ''test''
   \<and> target (SkipFrames 1) = target (SkipFrames 2)
   \<and> NewLogger [WithSkipFrames 1, WithSkipFrames 2] = NewLogger [WithSkipFrames 2]
   \<and> skipFrames (opt (NewLogger [WithSkipFrames 1, WithSkipFrames 2])) = 2
   \<and> F_defaultLogLevel \<noteq> target (SkipFrames 2)
   \<and> defaultLogLevel (opt (NewLogger [WithSkipFrames 1, WithSkipFrames 2])) = DebugLevel"
proof -
  note swap = NewLogger_applies_options_in_order
      [of "[]" id "SkipFrames 1" "opt (NewLogger [])" F_skipFrames
          "[SkipFrames 1, SqlFieldName ''test'']" "SkipFrames 1" "SqlFieldName ''test''" "[]" "[]"]
  note name = NewLogger_applies_options_in_order
      [of "[]" id "SkipFrames 1" "opt (NewLogger [])" F_fieldName
          "[SkipFrames 1, SqlFieldName ''test'']" "SkipFrames 1" "SkipFrames 2" "[]" "[]"]
  note level = NewLogger_applies_options_in_order
      [of "[]" id "SkipFrames 2" "opt (NewLogger [])" F_defaultLogLevel
          "[SkipFrames 1, SkipFrames 2]" "SkipFrames 1" "SkipFrames 2" "[]" "[]"]
  from swap have
    "NewLogger [WithSkipFrames 1, WithSqlFieldName ''test'']
       = NewLogger [WithSqlFieldName ''test'', WithSkipFrames 1]"
    and "skipFrames (opt (NewLogger [WithSkipFrames 1, WithSqlFieldName ''test''])) = 1"
    by (simp_all add: config_defs)
  moreover from name have
    "fieldName (opt (NewLogger [WithSkipFrames 1, WithSqlFieldName ''test''])) = ''test''"
    and "NewLogger [WithSkipFrames 1, WithSkipFrames 2] = NewLogger [WithSkipFrames 2]"
    and "skipFrames (opt (NewLogger [WithSkipFrames 1, WithSkipFrames 2])) = 2"
    by (simp_all add: config_defs)
  moreover from level have
    "defaultLogLevel (opt (NewLogger [WithSkipFrames 1, WithSkipFrames 2])) = DebugLevel"
    by (simp add: config_defs)
  ultimately show ?thesis by simp
qed

end
